theory Spec2Isabelle
  imports Complex_Main "HOL-Library.Log_Nat"
begin

section \<open>Stayclever: the booking and room-status lifecycle\<close>

text \<open>
  The development embeds the lifecycle logic of two pages of the application:
  the guest page (stay length, price, booking creation, checkout) and the room page
  (display status for a selected date).

  Several interfaces of the source share field names (\<open>id\<close>, \<open>name\<close>, \<open>status\<close>,
  \<open>nights\<close>, ...), so every record field carries a short prefix naming its interface;
  functions keep the names they have in the source.
\<close>

subsection \<open>Values of the host language\<close>

text \<open>
  A \<open>Date\<close> object holds a time value in milliseconds since the epoch, or NaN
  (an invalid date). The \<open>getTime\<close> difference of an invalid date is NaN, which the
  code tests with \<open>Number.isFinite\<close>.
\<close>

datatype Date = InvalidDate | Time int

text \<open>
  Numbers are IEEE 754 doubles. A finite double is modelled by the real number it
  denotes, and \<open>roundDouble\<close> is the rounding every arithmetic result undergoes: to the
  nearest multiple of the unit in the last place (53 significant bits, the unit never
  smaller than 2 to the power -1074), ties to the even multiple. \<open>ulpExponent x\<close> is the
  exponent of that unit for a value \<open>x\<close>: when \<open>\<bar>x\<bar>\<close> lies between 2 to the power
  \<open>k - 1\<close> (included) and 2 to the power \<open>k\<close> (excluded), it is \<open>k - 53\<close>. A result
  whose rounded magnitude reaches 2 to the power 1024 is \<open>Infinity\<close> in the engine; the
  reals have no such value, so the model is the program only below that magnitude.
\<close>

definition pow2 :: "int \<Rightarrow> real" where
  "pow2 e = (if 0 \<le> e then 2 ^ nat e else 1 / 2 ^ nat (- e))"

definition roundHalfEven :: "real \<Rightarrow> int" where
  "roundHalfEven x =
     (let f = \<lfloor>x\<rfloor>; r = x - real_of_int f
      in if r < 1 / 2 then f else if 1 / 2 < r then f + 1 else if even f then f else f + 1)"

definition ulpExponent :: "real \<Rightarrow> int" where
  "ulpExponent x =
     max (- 1074)
       (if 1 \<le> \<bar>x\<bar> then bitlen \<lfloor>\<bar>x\<bar>\<rfloor> - 53 else - bitlen (\<lceil>1 / \<bar>x\<bar>\<rceil> - 1) - 52)"

definition roundDouble :: "real \<Rightarrow> real" where
  "roundDouble x =
     (let e = ulpExponent x in real_of_int (roundHalfEven (x / pow2 e)) * pow2 e)"

text \<open>The product \<open>x * y\<close> of two numbers.\<close>

definition mulDouble :: "real \<Rightarrow> real \<Rightarrow> real" where
  "mulDouble x y = roundDouble (x * y)"

text \<open>Comparison of dates goes through their time values; every comparison with NaN is false.\<close>

fun date_ge :: "Date \<Rightarrow> Date \<Rightarrow> bool" where
  "date_ge (Time a) (Time b) = (a \<ge> b)"
| "date_ge _ _ = False"

fun date_le :: "Date \<Rightarrow> Date \<Rightarrow> bool" where
  "date_le (Time a) (Time b) = (a \<le> b)"
| "date_le _ _ = False"

text \<open>
  The \<open>Date\<close> constructor on a string and \<open>setHours(0, 0, 0, 0)\<close> belong to the
  engine, not to the repository: the functions below take them as the parameters
  \<open>newDate\<close> and \<open>setHours0\<close>. Two concrete instances follow, used to run the model:
  \<open>isoDate\<close> reads the date-only form \<open>YYYY-MM-DD\<close> (the value of a date input and
  of a \<open>date\<close> column) as midnight UTC, and \<open>localMidnight\<close> is the start of the local
  day in a zone at a fixed offset from UTC.
\<close>

definition digit :: "char \<Rightarrow> nat option" where
  "digit c = (let n = of_char c :: nat in if 48 \<le> n \<and> n \<le> 57 then Some (n - 48) else None)"

fun digits :: "nat \<Rightarrow> string \<Rightarrow> nat option" where
  "digits acc [] = Some acc"
| "digits acc (c # cs) = (case digit c of None \<Rightarrow> None | Some d \<Rightarrow> digits (10 * acc + d) cs)"

definition isLeapYear :: "nat \<Rightarrow> bool" where
  "isLeapYear y = (y mod 4 = 0 \<and> (y mod 100 \<noteq> 0 \<or> y mod 400 = 0))"

definition daysInMonth :: "nat \<Rightarrow> nat \<Rightarrow> nat" where
  "daysInMonth y m =
     (if m = 2 then (if isLeapYear y then 29 else 28)
      else if m = 4 \<or> m = 6 \<or> m = 9 \<or> m = 11 then 30 else 31)"

definition daysFromCivil :: "nat \<Rightarrow> nat \<Rightarrow> nat \<Rightarrow> int" where
  "daysFromCivil y m d =
     (let y' = (if m \<le> 2 then int y - 1 else int y);
          era = y' div 400;
          yoe = y' - era * 400;
          mp = (if m > 2 then int m - 3 else int m + 9);
          doy = (153 * mp + 2) div 5 + int d - 1;
          doe = yoe * 365 + yoe div 4 - yoe div 100 + doy
      in era * 146097 + doe - 719468)"

definition msPerDay :: int where
  "msPerDay = 1000 * 60 * 60 * 24"

definition isoDate :: "string \<Rightarrow> Date" where
  "isoDate s =
     (if length s = 10 \<and> s ! 4 = CHR ''-'' \<and> s ! 7 = CHR ''-'' then
        (case (digits 0 (take 4 s), digits 0 (take 2 (drop 5 s)), digits 0 (drop 8 s)) of
           (Some y, Some m, Some d) \<Rightarrow>
             if 1 \<le> m \<and> m \<le> 12 \<and> 1 \<le> d \<and> d \<le> daysInMonth y m
             then Time (msPerDay * daysFromCivil y m d) else InvalidDate
         | _ \<Rightarrow> InvalidDate)
      else InvalidDate)"

definition localMidnight :: "int \<Rightarrow> Date \<Rightarrow> Date" where
  "localMidnight offset d =
     (case d of InvalidDate \<Rightarrow> InvalidDate
      | Time t \<Rightarrow> Time (((t + offset) div msPerDay) * msPerDay - offset))"

subsection \<open>Enumerations\<close>

datatype RoomStatus = available | occupied | cleaning | reserved

datatype BookingStatus = reservation | checked_in | checked_out

datatype PaymentStatus = paid | unpaid

datatype TransactionType = income | expense

subsection \<open>Guest page: stay length and price\<close>

record RoomOption =
  opt_id :: string
  opt_number :: string
  opt_price :: real
  opt_status :: RoomStatus
  opt_typeId :: string
  opt_typeName :: string

text \<open>\<open>selectedRoom\<close>: no room while \<open>selectedRoomId\<close> is empty, else the first room with that id.\<close>

definition selectedRoom :: "RoomOption list \<Rightarrow> string \<Rightarrow> RoomOption option" where
  "selectedRoom rooms selectedRoomId =
     (if selectedRoomId = [] then None
      else find (\<lambda>room. opt_id room = selectedRoomId) rooms)"

text \<open>
  \<open>nights\<close>: 0 when a date string is empty; otherwise the difference of the two time
  values divided by the milliseconds of a day, rounded up when it is finite and positive,
  and 0 otherwise. The subtraction and the division are taken exactly: on the time values
  a date input yields (midnights UTC, whole multiples of a day) the doubles of the engine
  give the same result.
\<close>

definition nights :: "(string \<Rightarrow> Date) \<Rightarrow> string \<Rightarrow> string \<Rightarrow> int" where
  "nights newDate checkInDate checkOutDate =
     (if checkInDate = [] \<or> checkOutDate = [] then 0
      else
        (case (newDate checkInDate, newDate checkOutDate) of
           (Time checkIn, Time checkOut) \<Rightarrow>
             (let diff = (real_of_int checkOut - real_of_int checkIn) / (1000 * 60 * 60 * 24)
              in if diff > 0 then \<lceil>diff\<rceil> else 0)
         | _ \<Rightarrow> 0))"

definition calculatedPrice :: "RoomOption option \<Rightarrow> int \<Rightarrow> real" where
  "calculatedPrice selRoom n =
     (case selRoom of None \<Rightarrow> 0
      | Some room \<Rightarrow> if n = 0 then 0 else mulDouble (opt_price room) (real_of_int n))"

subsection \<open>The backend\<close>

text \<open>
  The hosted backend is outside the repository. Its tables are lists of rows keyed by the
  id the backend generated, and its answer to every request is an input of the model:
  an accepted insert appends the row under a generated id, an accepted update rewrites
  every row whose id matches, and a rejected request leaves the table as it was and hands
  the error back. \<open>instanceofError\<close> records whether the client library builds its
  error objects as instances of \<open>Error\<close>, which the handlers test.
\<close>

datatype PostgrestError = PostgrestError (message: string) (instanceofError: bool)

datatype insert_reply = InsertRejected PostgrestError | InsertedAs string

type_synonym update_reply = "PostgrestError option"

record GuestRow =
  g_name :: string
  g_phone :: string
  g_email :: string
  g_check_in :: string
  g_check_out :: string
  g_nights :: int
  g_price_per_night :: real
  g_total_price :: real
  g_payment_method :: string
  g_payment_status :: PaymentStatus
  g_booking_status :: BookingStatus
  g_room_id :: "string option"
  g_received_by :: "string option"

record RoomRow =
  r_number :: string
  r_type_id :: "string option"
  r_price :: real
  r_status :: RoomStatus
  r_reservation_date :: "string option"
  r_check_out_date :: "string option"

record TransactionRow =
  t_type :: TransactionType
  t_amount :: real
  t_category :: string
  t_description :: string
  t_date :: string

record ActivityRow =
  a_user_id :: string
  a_message :: string

record database =
  tbl_guests :: "(string \<times> GuestRow) list"
  tbl_rooms :: "(string \<times> RoomRow) list"
  tbl_transactions :: "(string \<times> TransactionRow) list"
  tbl_user_activities :: "(string \<times> ActivityRow) list"

definition insert_row ::
  "insert_reply \<Rightarrow> 'row \<Rightarrow> (string \<times> 'row) list \<Rightarrow> PostgrestError option \<times> (string \<times> 'row) list" where
  "insert_row reply row tbl =
     (case reply of
        InsertRejected e \<Rightarrow> (Some e, tbl)
      | InsertedAs i \<Rightarrow> (None, tbl @ [(i, row)]))"

definition update_eq_id ::
  "update_reply \<Rightarrow> ('row \<Rightarrow> 'row) \<Rightarrow> string \<Rightarrow> (string \<times> 'row) list
     \<Rightarrow> PostgrestError option \<times> (string \<times> 'row) list" where
  "update_eq_id reply upd i tbl =
     (case reply of
        Some e \<Rightarrow> (Some e, tbl)
      | None \<Rightarrow> (None, map (\<lambda>(k, row). if k = i then (k, upd row) else (k, row)) tbl))"

text \<open>
  The object passed to an update of \<open>rooms\<close>: a field that is absent (\<open>None\<close>) keeps
  the column, a date field present as \<open>Some None\<close> writes null.
\<close>

record RoomUpdates =
  u_status :: "RoomStatus option"
  u_reservation_date :: "string option option"
  u_check_out_date :: "string option option"

definition apply_updates :: "RoomUpdates \<Rightarrow> RoomRow \<Rightarrow> RoomRow" where
  "apply_updates u row =
     row\<lparr> r_status := (case u_status u of None \<Rightarrow> r_status row | Some s \<Rightarrow> s),
          r_reservation_date :=
            (case u_reservation_date u of None \<Rightarrow> r_reservation_date row | Some d \<Rightarrow> d),
          r_check_out_date :=
            (case u_check_out_date u of None \<Rightarrow> r_check_out_date row | Some d \<Rightarrow> d) \<rparr>"

text \<open>
  What a mutation throws: a backend error object, an \<open>Error\<close> built from a message, or
  the value of a variable that holds null. \<open>throw_value\<close> is \<open>throw x\<close> for a variable
  \<open>x\<close> of type error-or-null.
\<close>

datatype thrown = ThrownNull | ThrownPostgrest PostgrestError | ThrownError string

definition throw_value :: "PostgrestError option \<Rightarrow> thrown" where
  "throw_value x = (case x of None \<Rightarrow> ThrownNull | Some e \<Rightarrow> ThrownPostgrest e)"

subsection \<open>Guest page: booking creation\<close>

record Payload =
  pl_name :: string
  pl_phone :: string
  pl_email :: string
  pl_checkIn :: string
  pl_checkOut :: string
  pl_nights :: int
  pl_bookingStatus :: BookingStatus
  pl_paymentMethod :: string
  pl_paymentStatus :: PaymentStatus
  pl_roomId :: string
  pl_roomNumber :: string
  pl_roomTypeName :: string
  pl_pricePerNight :: real
  pl_totalPrice :: real
  pl_receivedBy :: "string option"

text \<open>The bullet character of the description and activity texts, as its UTF-8 bytes.\<close>

definition bullet :: string where
  "bullet = [char_of (226::nat), char_of (128::nat), char_of (162::nat)]"

definition guestInsert :: "Payload \<Rightarrow> GuestRow" where
  "guestInsert payload =
     \<lparr> g_name = pl_name payload,
       g_phone = pl_phone payload,
       g_email = pl_email payload,
       g_check_in = pl_checkIn payload,
       g_check_out = pl_checkOut payload,
       g_nights = pl_nights payload,
       g_price_per_night = pl_pricePerNight payload,
       g_total_price = pl_totalPrice payload,
       g_payment_method = pl_paymentMethod payload,
       g_payment_status = pl_paymentStatus payload,
       g_booking_status = pl_bookingStatus payload,
       g_room_id = Some (pl_roomId payload),
       g_received_by = pl_receivedBy payload \<rparr>"

definition roomUpdates :: "Payload \<Rightarrow> RoomUpdates" where
  "roomUpdates payload =
     (let u = \<lparr> u_status = None,
                 u_reservation_date = Some (Some (pl_checkIn payload)),
                 u_check_out_date = Some (Some (pl_checkOut payload)) \<rparr>
      in if pl_bookingStatus payload = checked_in then u\<lparr> u_status := Some occupied \<rparr>
         else if pl_bookingStatus payload = reservation then u\<lparr> u_status := Some reserved \<rparr>
         else u)"

definition transactionInsert :: "Payload \<Rightarrow> TransactionRow" where
  "transactionInsert payload =
     \<lparr> t_type = income,
       t_amount = pl_totalPrice payload,
       t_category = ''Kamar'',
       t_description =
         ''Pembayaran kamar '' @ pl_roomTypeName payload @ '' '' @ bullet @ '' Kamar ''
           @ pl_roomNumber payload,
       t_date = pl_checkIn payload \<rparr>"

text \<open>
  \<open>addGuestMutation\<close>: three requests in sequence, each followed by a throw of its error.
  The result is \<open>Inl\<close> of the thrown value or \<open>Inr ()\<close>, with the database as the
  requests left it.
\<close>

definition addGuestMutation ::
  "Payload \<Rightarrow> insert_reply \<Rightarrow> update_reply \<Rightarrow> insert_reply \<Rightarrow> database
     \<Rightarrow> (thrown + unit) \<times> database" where
  "addGuestMutation payload guestReply roomReply txReply db =
     (case insert_row guestReply (guestInsert payload) (tbl_guests db) of
        (Some error, guests') \<Rightarrow> (Inl (ThrownPostgrest error), db\<lparr> tbl_guests := guests' \<rparr>)
      | (None, guests') \<Rightarrow>
          (let db1 = db\<lparr> tbl_guests := guests' \<rparr> in
           case update_eq_id roomReply (apply_updates (roomUpdates payload)) (pl_roomId payload)
                  (tbl_rooms db1) of
             (Some roomError, rooms') \<Rightarrow> (Inl (ThrownPostgrest roomError), db1\<lparr> tbl_rooms := rooms' \<rparr>)
           | (None, rooms') \<Rightarrow>
               (let db2 = db1\<lparr> tbl_rooms := rooms' \<rparr>;
                    shouldCreateTransaction =
                      (pl_bookingStatus payload = checked_in \<and> pl_totalPrice payload > 0)
                in if shouldCreateTransaction then
                     (case insert_row txReply (transactionInsert payload) (tbl_transactions db2) of
                        (Some txError, txs') \<Rightarrow>
                          (Inl (ThrownPostgrest txError), db2\<lparr> tbl_transactions := txs' \<rparr>)
                      | (None, txs') \<Rightarrow> (Inr (), db2\<lparr> tbl_transactions := txs' \<rparr>))
                   else (Inr (), db2))))"

subsection \<open>Guest page: checkout\<close>

text \<open>
  \<open>setTimeout\<close> registers a callback with its delay in milliseconds. The only callback
  of the page is the room reset, a closure over the \<open>roomId\<close> of the payload.
\<close>

datatype callback = ResetRoom string

type_synonym timer = "nat \<times> callback"

definition falsy :: "string option \<Rightarrow> bool" where
  "falsy v = (case v of None \<Rightarrow> True | Some s \<Rightarrow> s = [])"

text \<open>
  \<open>checkoutMutation\<close>: the guest update, then (for a \<open>roomId\<close> that is not falsy) the
  room update. After a failed room update the code throws the variable \<open>error\<close> of the
  first request, not \<open>roomError\<close>.
\<close>

definition checkoutMutation ::
  "string \<Rightarrow> string option \<Rightarrow> update_reply \<Rightarrow> update_reply \<Rightarrow> database
     \<Rightarrow> (thrown + unit) \<times> database \<times> timer list" where
  "checkoutMutation guestId roomId guestReply roomReply db =
     (case update_eq_id guestReply (\<lambda>g. g\<lparr> g_booking_status := checked_out \<rparr>) guestId
             (tbl_guests db) of
        (error, guests') \<Rightarrow>
          (let db1 = db\<lparr> tbl_guests := guests' \<rparr> in
           if error \<noteq> None then (Inl (throw_value error), db1, [])
           else if falsy roomId then (Inr (), db1, [])
           else
             (case update_eq_id roomReply
                     (apply_updates \<lparr> u_status = Some cleaning, u_reservation_date = None,
                                      u_check_out_date = None \<rparr>)
                     (case roomId of Some i \<Rightarrow> i | None \<Rightarrow> []) (tbl_rooms db1) of
                (roomError, rooms') \<Rightarrow>
                  (let db2 = db1\<lparr> tbl_rooms := rooms' \<rparr> in
                   if roomError \<noteq> None then (Inl (throw_value error), db2, [])
                   else (Inr (), db2, [(3000, ResetRoom (case roomId of Some i \<Rightarrow> i | None \<Rightarrow> []))])))))"

text \<open>
  The callback: one room update; its error is not thrown, and nothing is scheduled again.
  The result is the database and the timers the callback registered.
\<close>

fun runCallback :: "callback \<Rightarrow> update_reply \<Rightarrow> database \<Rightarrow> database \<times> timer list" where
  "runCallback (ResetRoom roomId) resetReply db =
     (case update_eq_id resetReply
             (apply_updates \<lparr> u_status = Some available, u_reservation_date = Some None,
                              u_check_out_date = Some None \<rparr>)
             roomId (tbl_rooms db) of
        (resetError, rooms') \<Rightarrow> (db\<lparr> tbl_rooms := rooms' \<rparr>, []))"

text \<open>The guest list of the page; only the fields the handlers read are kept.\<close>

record GuestItem =
  gi_id :: string
  gi_name :: string
  gi_bookingStatus :: BookingStatus
  gi_roomId :: "string option"
  gi_roomNumber :: string

datatype toast = toast_success string | toast_error string | toast_warning string

text \<open>\<open>error instanceof Error ? error.message : fallback\<close>\<close>

definition errorMessage :: "thrown \<Rightarrow> string \<Rightarrow> string" where
  "errorMessage error fallback =
     (case error of
        ThrownNull \<Rightarrow> fallback
      | ThrownError m \<Rightarrow> m
      | ThrownPostgrest e \<Rightarrow> if instanceofError e then message e else fallback)"

definition handleCheckout ::
  "GuestItem list \<Rightarrow> string \<Rightarrow> update_reply \<Rightarrow> update_reply \<Rightarrow> database
     \<Rightarrow> toast \<times> database \<times> timer list" where
  "handleCheckout guests guestId guestReply roomReply db =
     (case find (\<lambda>item. gi_id item = guestId) guests of
        None \<Rightarrow> (toast_error ''Data tamu tidak ditemukan.'', db, [])
      | Some guest \<Rightarrow>
          if gi_bookingStatus guest \<noteq> checked_in
          then (toast_warning ''Tamu ini belum berstatus check-in.'', db, [])
          else
            (case checkoutMutation (gi_id guest) (gi_roomId guest) guestReply roomReply db of
               (Inr _, db', timers) \<Rightarrow>
                 (toast_success
                    (''Check-out berhasil. Kamar '' @ gi_roomNumber guest @ '' sedang dibersihkan.''),
                  db', timers)
             | (Inl error, db', timers) \<Rightarrow>
                 (toast_error (errorMessage error ''Gagal melakukan check-out.''), db', timers)))"

subsection \<open>Guest page: the submit handler\<close>

text \<open>\<open>trim\<close> on the ASCII white space characters.\<close>

definition isWhiteSpace :: "char \<Rightarrow> bool" where
  "isWhiteSpace c = (of_char c \<in> {9, 10, 11, 12, 13, 32 :: nat})"

definition trim :: "string \<Rightarrow> string" where
  "trim s = rev (dropWhile isWhiteSpace (rev (dropWhile isWhiteSpace s)))"

text \<open>
  \<open>recordActivity\<close>: nothing for a blank message; otherwise one insert into
  \<open>user_activities\<close>, whose error is rethrown as an \<open>Error\<close> with the same message.
  The refresh that follows only reads.
\<close>

definition recordActivity ::
  "string \<Rightarrow> string \<Rightarrow> insert_reply \<Rightarrow> database \<Rightarrow> (thrown + unit) \<times> database" where
  "recordActivity userId msg activityReply db =
     (let trimmed = trim msg in
      if trimmed = [] then (Inr (), db)
      else
        (case insert_row activityReply \<lparr> a_user_id = userId, a_message = trimmed \<rparr>
                (tbl_user_activities db) of
           (Some error, acts') \<Rightarrow> (Inl (ThrownError (message error)), db\<lparr> tbl_user_activities := acts' \<rparr>)
         | (None, acts') \<Rightarrow> (Inr (), db\<lparr> tbl_user_activities := acts' \<rparr>)))"

record GuestsState =
  isDialogOpen :: bool
  selectedRoomTypeId :: string
  selectedRoomId :: string
  checkInDate :: string
  checkOutDate :: string

record FormData =
  fd_name :: string
  fd_phone :: string
  fd_email :: string
  fd_bookingStatus :: BookingStatus
  fd_paymentMethod :: string
  fd_paymentStatus :: PaymentStatus

record Replies =
  guestReply :: insert_reply
  roomReply :: update_reply
  txReply :: insert_reply
  activityReply :: insert_reply

definition makePayload ::
  "FormData \<Rightarrow> GuestsState \<Rightarrow> RoomOption \<Rightarrow> int \<Rightarrow> real \<Rightarrow> string option \<Rightarrow> Payload" where
  "makePayload formData st room n totalPrice currentUser =
     \<lparr> pl_name = trim (fd_name formData),
       pl_phone = trim (fd_phone formData),
       pl_email = trim (fd_email formData),
       pl_checkIn = checkInDate st,
       pl_checkOut = checkOutDate st,
       pl_nights = n,
       pl_bookingStatus = fd_bookingStatus formData,
       pl_paymentMethod = fd_paymentMethod formData,
       pl_paymentStatus = fd_paymentStatus formData,
       pl_roomId = opt_id room,
       pl_roomNumber = opt_number room,
       pl_roomTypeName = opt_typeName room,
       pl_pricePerNight = opt_price room,
       pl_totalPrice = totalPrice,
       pl_receivedBy = currentUser \<rparr>"

definition activityMessage :: "Payload \<Rightarrow> RoomOption \<Rightarrow> string" where
  "activityMessage payload room =
     (let roomLabel = ''Kamar '' @ opt_number room @ '' '' @ bullet @ '' '' @ opt_typeName room in
      ''Menerima tamu '' @ pl_name payload @ '' (''
        @ (if pl_bookingStatus payload = checked_in then ''check-in'' else ''reservasi'')
        @ '') di '' @ roomLabel @ ''.'')"

text \<open>
  \<open>handleAddGuest\<close>: the three checks before any request, then the mutation; after a
  successful mutation the activity entry (its failure is only logged), the success toast
  and the reset of the form state. The model runs the mutation function once and ends
  at the reset of the form state: the retry the query client makes after a failed
  mutation, and the call \<open>event.currentTarget.reset()\<close> that follows the state reset, are
  not modelled. The branches that return before the mutation are modelled in full.
\<close>

definition handleAddGuest ::
  "(string \<Rightarrow> Date) \<Rightarrow> RoomOption list \<Rightarrow> string option \<Rightarrow> GuestsState \<Rightarrow> FormData \<Rightarrow> Replies
     \<Rightarrow> database \<Rightarrow> toast \<times> GuestsState \<times> database" where
  "handleAddGuest newDate rooms currentUser st formData replies db =
     (if selectedRoomTypeId st = [] then (toast_error ''Pilih tipe kamar terlebih dahulu.'', st, db)
      else
        (case selectedRoom rooms (selectedRoomId st) of
           None \<Rightarrow> (toast_error ''Pilih nomor kamar yang tersedia.'', st, db)
         | Some room \<Rightarrow>
             (let n = nights newDate (checkInDate st) (checkOutDate st) in
              if n \<le> 0 then (toast_error ''Tanggal check out harus setelah check in.'', st, db)
              else
                (let payload = makePayload formData st room n (calculatedPrice (Some room) n) currentUser in
                 case addGuestMutation payload (guestReply replies) (roomReply replies)
                        (txReply replies) db of
                   (Inl error, db') \<Rightarrow>
                     (toast_error (errorMessage error ''Gagal menambahkan tamu.''), st, db')
                 | (Inr _, db') \<Rightarrow>
                     (let db'' =
                        (case currentUser of
                           None \<Rightarrow> db'
                         | Some userId \<Rightarrow>
                             snd (recordActivity userId (activityMessage payload room)
                                    (activityReply replies) db'))
                      in (toast_success ''Tamu berhasil ditambahkan!'',
                          st\<lparr> isDialogOpen := False, selectedRoomTypeId := [], selectedRoomId := [],
                               checkInDate := [], checkOutDate := [] \<rparr>,
                          db''))))))"

subsection \<open>Room page: display status for the selected date\<close>

record Room =
  rm_id :: string
  rm_number :: string
  rm_typeId :: string
  rm_typeName :: string
  rm_price :: real
  rm_status :: RoomStatus
  rm_reservationDate :: "string option"
  rm_checkOutDate :: "string option"

record ReservationRow =
  rr_id :: string
  rr_name :: string
  rr_room_id :: "string option"
  rr_booking_status :: BookingStatus
  rr_payment_status :: PaymentStatus
  rr_check_in :: string
  rr_check_out :: string

record ReservationSummary =
  rs_guestName :: string
  rs_bookingStatus :: BookingStatus
  rs_paymentStatus :: PaymentStatus
  rs_checkIn :: string
  rs_checkOut :: string

definition summary :: "ReservationRow \<Rightarrow> ReservationSummary" where
  "summary resv =
     \<lparr> rs_guestName = rr_name resv,
       rs_bookingStatus = rr_booking_status resv,
       rs_paymentStatus = rr_payment_status resv,
       rs_checkIn = rr_check_in resv,
       rs_checkOut = rr_check_out resv \<rparr>"

text \<open>
  The test of the loop body of \<open>reservationsByRoom\<close>: the row has a room id and both
  dates, and the target lies between its check-in and check-out, all three at the start
  of their day.
\<close>

definition overlapsTarget ::
  "(string \<Rightarrow> Date) \<Rightarrow> (Date \<Rightarrow> Date) \<Rightarrow> Date \<Rightarrow> ReservationRow \<Rightarrow> bool" where
  "overlapsTarget newDate setHours0 target resv =
     (if falsy (rr_room_id resv) \<or> rr_check_in resv = []
         \<or> rr_check_out resv = [] then False
      else
        (let checkIn = setHours0 (newDate (rr_check_in resv));
             checkOut = setHours0 (newDate (rr_check_out resv))
         in date_ge target checkIn \<and> date_le target checkOut))"

definition addReservation ::
  "(string \<Rightarrow> Date) \<Rightarrow> (Date \<Rightarrow> Date) \<Rightarrow> Date \<Rightarrow> ReservationRow
     \<Rightarrow> (string \<rightharpoonup> ReservationSummary list) \<Rightarrow> (string \<rightharpoonup> ReservationSummary list)" where
  "addReservation newDate setHours0 target resv m =
     (if overlapsTarget newDate setHours0 target resv then
        (case rr_room_id resv of
           None \<Rightarrow> m
         | Some roomId \<Rightarrow>
             (let existing = (case m roomId of None \<Rightarrow> [] | Some l \<Rightarrow> l)
              in m(roomId \<mapsto> existing @ [summary resv])))
      else m)"

definition reservationsByRoom ::
  "(string \<Rightarrow> Date) \<Rightarrow> (Date \<Rightarrow> Date) \<Rightarrow> ReservationRow list option \<Rightarrow> Date option
     \<Rightarrow> (string \<rightharpoonup> ReservationSummary list)" where
  "reservationsByRoom newDate setHours0 reservationsData selectedDate =
     (case (reservationsData, selectedDate) of
        (Some rows, Some date) \<Rightarrow>
          (let target = setHours0 date
           in fold (addReservation newDate setHours0 target) rows Map.empty)
      | _ \<Rightarrow> Map.empty)"

definition getDisplayStatus ::
  "Date option \<Rightarrow> (string \<rightharpoonup> ReservationSummary list) \<Rightarrow> Room \<Rightarrow> RoomStatus" where
  "getDisplayStatus selectedDate byRoom room =
     (if rm_status room = cleaning then cleaning
      else if selectedDate = None then rm_status room
      else
        (let todaysReservations = (case byRoom (rm_id room) of None \<Rightarrow> [] | Some l \<Rightarrow> l) in
         if length todaysReservations = 0 then rm_status room
         else
           (let hasCheckedInGuest =
                  list_ex (\<lambda>r. rs_bookingStatus r = checked_in) todaysReservations
            in if hasCheckedInGuest then occupied else reserved)))"

text \<open>The status a room card shows: \<open>getDisplayStatus\<close> over the map of the same render.\<close>

definition displayStatus ::
  "(string \<Rightarrow> Date) \<Rightarrow> (Date \<Rightarrow> Date) \<Rightarrow> ReservationRow list option \<Rightarrow> Date option \<Rightarrow> Room
     \<Rightarrow> RoomStatus" where
  "displayStatus newDate setHours0 reservationsData selectedDate room =
     getDisplayStatus selectedDate
       (reservationsByRoom newDate setHours0 reservationsData selectedDate) room"

subsection \<open>Scenario data\<close>

text \<open>
  Room 101 at 500000 a night, a stay from 2024-01-10 to 2024-01-12, and a client five
  hours behind UTC or seven hours ahead of it.
\<close>

definition room101 :: RoomOption where
  "room101 = \<lparr> opt_id = ''r101'', opt_number = ''101'', opt_price = 500000,
               opt_status = available, opt_typeId = ''t1'', opt_typeName = ''Deluxe'' \<rparr>"


definition row101 :: RoomRow where
  "row101 = \<lparr> r_number = ''101'', r_type_id = Some ''t1'', r_price = 500000,
              r_status = available, r_reservation_date = None, r_check_out_date = None \<rparr>"

definition row102 :: RoomRow where
  "row102 = \<lparr> r_number = ''102'', r_type_id = Some ''t1'', r_price = 0,
              r_status = available, r_reservation_date = None, r_check_out_date = None \<rparr>"

definition db0 :: database where
  "db0 = \<lparr> tbl_guests = [], tbl_rooms = [(''r101'', row101), (''r102'', row102)],
           tbl_transactions = [], tbl_user_activities = [] \<rparr>"

definition stayState :: "string \<Rightarrow> string \<Rightarrow> GuestsState" where
  "stayState ci co = \<lparr> isDialogOpen = True, selectedRoomTypeId = ''t1'', selectedRoomId = ''r101'',
                        checkInDate = ci, checkOutDate = co \<rparr>"

definition formFor :: "BookingStatus \<Rightarrow> FormData" where
  "formFor s = \<lparr> fd_name = '' Sari '', fd_phone = ''0811'', fd_email = ''sari@example.com'',
                 fd_bookingStatus = s, fd_paymentMethod = ''cash'', fd_paymentStatus = paid \<rparr>"

definition payloadFor :: "BookingStatus \<Rightarrow> Payload" where
  "payloadFor s = makePayload (formFor s) (stayState ''2024-01-10'' ''2024-01-12'') room101 2 1000000
                    (Some ''u1'')"

definition accepted :: Replies where
  "accepted = \<lparr> guestReply = InsertedAs ''g1'', roomReply = None, txReply = InsertedAs ''x1'',
                activityReply = InsertedAs ''a1'' \<rparr>"

definition denied :: PostgrestError where
  "denied = PostgrestError ''permission denied for table rooms'' True"

definition bookingRow :: "string \<Rightarrow> BookingStatus \<Rightarrow> string \<Rightarrow> string \<Rightarrow> ReservationRow" where
  "bookingRow i s ci co = \<lparr> rr_id = i, rr_name = ''Sari'', rr_room_id = Some ''r101'',
                            rr_booking_status = s, rr_payment_status = paid,
                            rr_check_in = ci, rr_check_out = co \<rparr>"

definition roomCard :: "RoomStatus \<Rightarrow> Room" where
  "roomCard s = \<lparr> rm_id = ''r101'', rm_number = ''101'', rm_typeId = ''t1'', rm_typeName = ''Deluxe'',
                  rm_price = 500000, rm_status = s, rm_reservationDate = None,
                  rm_checkOutDate = None \<rparr>"

definition wib :: "Date \<Rightarrow> Date" where
  "wib = localMidnight (7 * 3600000)"

definition guestItem :: "BookingStatus \<Rightarrow> GuestItem" where
  "guestItem s = \<lparr> gi_id = ''g1'', gi_name = ''Sari'', gi_bookingStatus = s,
                   gi_roomId = Some ''r101'', gi_roomNumber = ''101'' \<rparr>"

definition pricedRoom :: "real \<Rightarrow> RoomOption" where
  "pricedRoom p = room101\<lparr> opt_price := p \<rparr>"

definition afternoon :: Date where
  "afternoon = Time (msPerDay * 19732 + 36000000)"

definition mixedBookings :: "ReservationRow list" where
  "mixedBookings = [bookingRow ''b1'' reservation ''2024-01-09'' ''2024-01-10'',
                    bookingRow ''b2'' checked_in ''2024-01-10'' ''2024-01-12'']"

definition heldBookings :: "ReservationRow list" where
  "heldBookings = [bookingRow ''b1'' reservation ''2024-01-09'' ''2024-01-10'',
                   bookingRow ''b3'' reservation ''2024-01-10'' ''2024-01-11'']"

definition pastBookings :: "ReservationRow list" where
  "pastBookings = [bookingRow ''b4'' checked_out ''2024-01-09'' ''2024-01-10'',
                   bookingRow ''b5'' reservation ''2024-01-11'' ''2024-01-12'']"

text \<open>The database after the checked-in booking of the scenario has been created.\<close>

definition dbStay :: database where
  "dbStay = snd (addGuestMutation (payloadFor checked_in) (InsertedAs ''g1'') None
                   (InsertedAs ''x1'') db0)"

text \<open>The database after the checkout of that booking, before the timer fires.\<close>

definition dbCleaning :: database where
  "dbCleaning = fst (snd (handleCheckout [guestItem checked_in] ''g1'' None None dbStay))"

section \<open>Properties\<close>

subsection \<open>Stay length\<close>

lemma nights_Time:
  "ci \<noteq> [] \<Longrightarrow> co \<noteq> [] \<Longrightarrow> newDate ci = Time a \<Longrightarrow> newDate co = Time b \<Longrightarrow>
   nights newDate ci co =
     (if a < b then \<lceil>(real_of_int b - real_of_int a) / real_of_int msPerDay\<rceil> else 0)"
  by (simp add: nights_def msPerDay_def)

lemma ceiling_days_pos:
  assumes "a < b"
  shows "1 \<le> \<lceil>(real_of_int b - real_of_int a) / real_of_int msPerDay\<rceil>"
proof -
  from assms have "0 < (real_of_int b - real_of_int a) / real_of_int msPerDay"
    by (simp add: msPerDay_def)
  then show ?thesis by linarith
qed

lemma ceiling_whole_days:
  "\<lceil>(real_of_int (msPerDay * db) - real_of_int (msPerDay * da)) / real_of_int msPerDay\<rceil> = db - da"
proof -
  have "(real_of_int (msPerDay * db) - real_of_int (msPerDay * da)) / real_of_int msPerDay
        = real_of_int (db - da)"
    by (simp add: msPerDay_def field_simps)
  then show ?thesis by simp
qed

lemma nights_missing:
  "ci = [] \<or> co = [] \<or> newDate ci = InvalidDate \<or> newDate co = InvalidDate
   \<Longrightarrow> nights newDate ci co = 0"
  by (auto simp: nights_def split: Date.splits)

lemma handleAddGuest_rejects:
  "nights newDate (checkInDate st) (checkOutDate st) \<le> 0 \<Longrightarrow>
   \<exists>msg. handleAddGuest newDate rooms user st formData replies db = (toast_error msg, st, db)"
  by (simp add: handleAddGuest_def split: option.splits)

lemma isoDate_jan10: "isoDate ''2024-01-10'' = Time (msPerDay * 19732)"
  by code_simp

lemma isoDate_jan12: "isoDate ''2024-01-12'' = Time (msPerDay * 19734)"
  by code_simp

lemma isoDate_garbage: "isoDate ''soon'' = InvalidDate"
  by code_simp

text \<open>
  Claim C2. For two dates whose time values are \<open>a < b\<close>, \<open>nights\<close> is the ceiling of
  \<open>(b - a)\<close> over the milliseconds of a day and is at least 1; for two calendar dates
  (midnights, whole multiples of a day) \<open>d1 < d2\<close> it is \<open>d2 - d1\<close>. When check-out is
  not after check-in, or a date is missing or does not parse, \<open>nights\<close> is 0; and with
  \<open>nights = 0\<close> the submit handler answers with an error toast and returns the form state
  and the database as they were, whatever the backend would have replied.
\<close>

theorem nights_ceil_and_rejection:
  "(ci \<noteq> [] \<and> co \<noteq> [] \<and> newDate ci = Time a \<and> newDate co = Time b \<and> a < b \<longrightarrow>
      nights newDate ci co = \<lceil>(real_of_int b - real_of_int a) / real_of_int msPerDay\<rceil>
      \<and> 1 \<le> nights newDate ci co)
   \<and> (ci \<noteq> [] \<and> co \<noteq> [] \<and> newDate ci = Time (msPerDay * d1) \<and> newDate co = Time (msPerDay * d2)
        \<and> d1 < d2 \<longrightarrow> nights newDate ci co = d2 - d1)
   \<and> (newDate ci = Time a \<and> newDate co = Time b \<and> b \<le> a \<longrightarrow> nights newDate ci co = 0)
   \<and> (ci = [] \<or> co = [] \<or> newDate ci = InvalidDate \<or> newDate co = InvalidDate
        \<longrightarrow> nights newDate ci co = 0)
   \<and> (nights newDate (checkInDate st) (checkOutDate st) = 0 \<longrightarrow>
        (\<exists>msg. handleAddGuest newDate rooms user st formData replies db = (toast_error msg, st, db)))"
proof (intro conjI impI)
  assume h: "ci \<noteq> [] \<and> co \<noteq> [] \<and> newDate ci = Time a \<and> newDate co = Time b \<and> a < b"
  then show "nights newDate ci co = \<lceil>(real_of_int b - real_of_int a) / real_of_int msPerDay\<rceil>"
    by (simp add: nights_Time)
  moreover from h have "1 \<le> \<lceil>(real_of_int b - real_of_int a) / real_of_int msPerDay\<rceil>"
    by (intro ceiling_days_pos) simp
  ultimately show "1 \<le> nights newDate ci co"
    by (simp only:)
next
  assume h: "ci \<noteq> [] \<and> co \<noteq> [] \<and> newDate ci = Time (msPerDay * d1)
             \<and> newDate co = Time (msPerDay * d2) \<and> d1 < d2"
  then have "msPerDay * d1 < msPerDay * d2" by (simp add: msPerDay_def)
  with h have "nights newDate ci co
        = \<lceil>(real_of_int (msPerDay * d2) - real_of_int (msPerDay * d1)) / real_of_int msPerDay\<rceil>"
    using nights_Time [of ci co newDate "msPerDay * d1" "msPerDay * d2"] by simp
  then show "nights newDate ci co = d2 - d1" by (simp only: ceiling_whole_days)
next
  assume h: "newDate ci = Time a \<and> newDate co = Time b \<and> b \<le> a"
  show "nights newDate ci co = 0"
  proof (cases "ci = [] \<or> co = []")
    case True then show ?thesis by (auto simp: nights_def)
  next
    case False with h show ?thesis by (simp add: nights_Time)
  qed
next
  assume "ci = [] \<or> co = [] \<or> newDate ci = InvalidDate \<or> newDate co = InvalidDate"
  then show "nights newDate ci co = 0" by (rule nights_missing)
next
  assume "nights newDate (checkInDate st) (checkOutDate st) = 0"
  then show "\<exists>msg. handleAddGuest newDate rooms user st formData replies db = (toast_error msg, st, db)"
    by (simp add: handleAddGuest_rejects)
qed

text \<open>
  The same at the stay 2024-01-10 to 2024-01-12 and its reverse, at equal dates, at a
  missing and at an unparseable check-out.
\<close>

theorem nights_ceil_and_rejection_witness:
  "nights isoDate ''2024-01-10'' ''2024-01-12'' = 2
   \<and> nights isoDate ''2024-01-12'' ''2024-01-10'' = 0
   \<and> nights isoDate ''2024-01-10'' ''2024-01-10'' = 0
   \<and> nights isoDate ''2024-01-10'' [] = 0
   \<and> nights isoDate ''2024-01-10'' ''soon'' = 0
   \<and> (\<exists>msg. handleAddGuest isoDate [room101] (Some ''u1'') (stayState ''2024-01-12'' ''2024-01-10'')
               (formFor checked_in) accepted db0
             = (toast_error msg, stayState ''2024-01-12'' ''2024-01-10'', db0))"
  using nights_ceil_and_rejection [of "''2024-01-10''" "''2024-01-12''" isoDate "msPerDay * 19732" "msPerDay * 19734" 19732 19734]
        nights_ceil_and_rejection [of "''2024-01-12''" "''2024-01-10''" isoDate "msPerDay * 19734" "msPerDay * 19732" 0 0
              "stayState ''2024-01-12'' ''2024-01-10''" "[room101]" "Some ''u1''" "formFor checked_in" accepted db0]
        nights_ceil_and_rejection [of "''2024-01-10''" "''2024-01-10''" isoDate "msPerDay * 19732" "msPerDay * 19732"]
        nights_ceil_and_rejection [of "''2024-01-10''" "[]" isoDate]
        nights_ceil_and_rejection [of "''2024-01-10''" "''soon''" isoDate]
  by (simp add: isoDate_jan10 isoDate_jan12 isoDate_garbage stayState_def msPerDay_def)

subsection \<open>Price\<close>









lemma roundDouble_zero: "roundDouble 0 = 0"
  by (simp add: roundDouble_def roundHalfEven_def)

lemma calculatedPrice_round:
  "calculatedPrice (Some room) n = roundDouble (real_of_int n * opt_price room)"
proof (cases "n = 0")
  case True
  then show ?thesis by (simp add: calculatedPrice_def roundDouble_zero)
next
  case False
  have "opt_price room * real_of_int n = real_of_int n * opt_price room"
    by (rule mult.commute)
  with False show ?thesis by (simp only: calculatedPrice_def mulDouble_def option.case if_False)
qed









text \<open>
  A fractional price: the double nearest to 0.1 is 3602879701896397 over 2 to the power
  55. Three nights at that price give 5404319552844596 over 2 to the power 54 (printed
  as 0.30000000000000004), half a unit above the product.
\<close>

lemma bitlen_three: "bitlen 3 = 2"
  by code_simp

lemma ulpExponent_tenths:
  "ulpExponent (10808639105689191 / 36028797018963968) = - 54"
proof -
  have "\<lceil>(36028797018963968 :: real) / 10808639105689191\<rceil> = 4"
    by simp
  then show ?thesis
    by (simp add: ulpExponent_def bitlen_three)
qed

lemma roundDouble_tenths:
  "roundDouble (10808639105689191 / 36028797018963968) = 5404319552844596 / 18014398509481984"
proof -
  have "roundHalfEven (10808639105689191 / 2) = 5404319552844596"
    by (simp add: roundHalfEven_def Let_def)
  then show ?thesis
    by (simp add: roundDouble_def ulpExponent_tenths pow2_def)
qed

lemma calculatedPrice_tenth:
  "calculatedPrice (Some (pricedRoom (3602879701896397 / 36028797018963968))) 3
     = 5404319552844596 / 18014398509481984
   \<and> 3 * opt_price (pricedRoom (3602879701896397 / 36028797018963968))
     = 5404319552844595.5 / 18014398509481984"
  by (simp add: calculatedPrice_round pricedRoom_def roundDouble_tenths)

subsection \<open>Display status\<close>

lemma addReservation_skip:
  "\<not> overlapsTarget nd sh target r \<Longrightarrow> addReservation nd sh target r m = m"
  by (simp add: addReservation_def)

lemma addReservation_push:
  "overlapsTarget nd sh target r \<Longrightarrow> rr_room_id r = Some k \<Longrightarrow>
   addReservation nd sh target r m
     = m(k \<mapsto> (case m k of None \<Rightarrow> [] | Some l \<Rightarrow> l) @ [summary r])"
  by (simp add: addReservation_def)

lemma overlapsTarget_room_id:
  "overlapsTarget nd sh target r \<Longrightarrow> \<exists>k. rr_room_id r = Some k \<and> k \<noteq> []"
  by (cases "rr_room_id r") (auto simp: overlapsTarget_def falsy_def split: if_splits)

text \<open>
  What the loop leaves under a room id: the entries that were there, followed by the
  summaries of the overlapping rows of that room, in the order of the rows.
\<close>

lemma fold_addReservation:
  "fold (addReservation nd sh target) rows m rid =
     (let new = map summary
                  (filter (\<lambda>r. overlapsTarget nd sh target r \<and> rr_room_id r = Some rid) rows)
      in if new = [] then m rid else Some ((case m rid of None \<Rightarrow> [] | Some l \<Rightarrow> l) @ new))"
proof (induction rows arbitrary: m)
  case Nil
  then show ?case by simp
next
  case (Cons r rows)
  show ?case
  proof (cases "overlapsTarget nd sh target r")
    case False
    then show ?thesis using Cons.IH [of m] by (simp add: addReservation_skip)
  next
    case True
    then obtain k where k: "rr_room_id r = Some k"
      using overlapsTarget_room_id by blast
    let ?m = "m(k \<mapsto> (case m k of None \<Rightarrow> [] | Some l \<Rightarrow> l) @ [summary r])"
    have step: "addReservation nd sh target r m = ?m"
      using True k by (rule addReservation_push)
    have "fold (addReservation nd sh target) (r # rows) m rid
            = fold (addReservation nd sh target) rows ?m rid"
      by (simp add: step)
    also have "\<dots> =
        (let new = map summary
                     (filter (\<lambda>r. overlapsTarget nd sh target r \<and> rr_room_id r = Some rid) rows)
         in if new = [] then ?m rid
            else Some ((case ?m rid of None \<Rightarrow> [] | Some l \<Rightarrow> l) @ new))"
      by (rule Cons.IH)
    also have "\<dots> =
        (let new = map summary
                     (filter (\<lambda>r. overlapsTarget nd sh target r \<and> rr_room_id r = Some rid)
                        (r # rows))
         in if new = [] then m rid else Some ((case m rid of None \<Rightarrow> [] | Some l \<Rightarrow> l) @ new))"
      using True k by (cases "k = rid") (simp_all add: Let_def)
    finally show ?thesis .
  qed
qed

lemma reservationsByRoom_lookup:
  "reservationsByRoom nd sh (Some rows) (Some d) rid =
     (let l = filter (\<lambda>r. overlapsTarget nd sh (sh d) r \<and> rr_room_id r = Some rid) rows
      in if l = [] then None else Some (map summary l))"
  by (simp add: reservationsByRoom_def fold_addReservation Let_def)

lemma displayStatus_loaded:
  "displayStatus nd sh (Some rows) (Some d) room =
     (if rm_status room = cleaning then cleaning
      else if \<not> (\<exists>r\<in>set rows. rr_room_id r = Some (rm_id room) \<and> overlapsTarget nd sh (sh d) r)
        then rm_status room
      else if (\<exists>r\<in>set rows. rr_room_id r = Some (rm_id room) \<and> overlapsTarget nd sh (sh d) r
                  \<and> rr_booking_status r = checked_in)
        then occupied else reserved)"
  by (auto simp: displayStatus_def getDisplayStatus_def reservationsByRoom_lookup list_ex_iff
        summary_def Let_def filter_empty_conv)

lemma displayStatus_cleaning:
  "rm_status room = cleaning \<Longrightarrow> displayStatus nd sh reservationsData sel room = cleaning"
  by (simp add: displayStatus_def getDisplayStatus_def)

lemma overlapsTarget_inclusive:
  "rr_room_id r = Some rid \<Longrightarrow> rid \<noteq> [] \<Longrightarrow> rr_check_in r \<noteq> [] \<Longrightarrow> rr_check_out r \<noteq> [] \<Longrightarrow>
   sh (nd (rr_check_in r)) = Time a \<Longrightarrow> sh (nd (rr_check_out r)) = Time b \<Longrightarrow>
   overlapsTarget nd sh (Time t) r = (a \<le> t \<and> t \<le> b)"
  by (simp add: overlapsTarget_def falsy_def)

lemma isoDate_jan09: "isoDate ''2024-01-09'' = Time (msPerDay * 19731)"
  by code_simp

lemma isoDate_jan11: "isoDate ''2024-01-11'' = Time (msPerDay * 19733)"
  by code_simp

lemmas stay_dates = isoDate_jan09 isoDate_jan10 isoDate_jan11 isoDate_jan12

lemmas card_defs = wib_def localMidnight_def msPerDay_def afternoon_def bookingRow_def
  roomCard_def overlapsTarget_def falsy_def

text \<open>
  Claim C4. Take a room whose stored status is not \<open>cleaning\<close>, the loaded bookings and
  a selected date. If some booking of the room overlaps the date and is \<open>checked-in\<close>,
  the display status is \<open>occupied\<close>, whatever other bookings overlap. If bookings of the
  room overlap the date and all of them are of status \<open>reservation\<close>, the display status
  is \<open>reserved\<close>. A booking with a room id and both dates overlaps exactly when the
  selected date, at the start of its day, lies between check-in and check-out at the
  start of theirs, both ends included.
\<close>

theorem display_checked_in_precedence:
  assumes "rm_status room \<noteq> cleaning"
  shows
    "((\<exists>r\<in>set rows. rr_room_id r = Some (rm_id room) \<and> overlapsTarget nd sh (sh d) r
          \<and> rr_booking_status r = checked_in)
        \<longrightarrow> displayStatus nd sh (Some rows) (Some d) room = occupied)
     \<and> ((\<exists>r\<in>set rows. rr_room_id r = Some (rm_id room) \<and> overlapsTarget nd sh (sh d) r)
         \<and> (\<forall>r\<in>set rows. rr_room_id r = Some (rm_id room) \<and> overlapsTarget nd sh (sh d) r
                \<longrightarrow> rr_booking_status r = reservation)
        \<longrightarrow> displayStatus nd sh (Some rows) (Some d) room = reserved)
     \<and> (rr_room_id row = Some (rm_id room) \<and> rm_id room \<noteq> [] \<and> rr_check_in row \<noteq> []
         \<and> rr_check_out row \<noteq> [] \<and> sh (nd (rr_check_in row)) = Time a
         \<and> sh (nd (rr_check_out row)) = Time b \<and> sh d = Time t
        \<longrightarrow> overlapsTarget nd sh (sh d) row = (a \<le> t \<and> t \<le> b))"
proof (intro conjI impI)
  assume "\<exists>r\<in>set rows. rr_room_id r = Some (rm_id room) \<and> overlapsTarget nd sh (sh d) r
            \<and> rr_booking_status r = checked_in"
  with assms show "displayStatus nd sh (Some rows) (Some d) room = occupied"
    by (subst displayStatus_loaded) auto
next
  assume h: "(\<exists>r\<in>set rows. rr_room_id r = Some (rm_id room) \<and> overlapsTarget nd sh (sh d) r)
         \<and> (\<forall>r\<in>set rows. rr_room_id r = Some (rm_id room) \<and> overlapsTarget nd sh (sh d) r
                \<longrightarrow> rr_booking_status r = reservation)"
  then have "\<not> (\<exists>r\<in>set rows. rr_room_id r = Some (rm_id room) \<and> overlapsTarget nd sh (sh d) r
                  \<and> rr_booking_status r = checked_in)"
    by auto
  with assms h show "displayStatus nd sh (Some rows) (Some d) room = reserved"
    by (subst displayStatus_loaded) simp
next
  assume "rr_room_id row = Some (rm_id room) \<and> rm_id room \<noteq> [] \<and> rr_check_in row \<noteq> []
         \<and> rr_check_out row \<noteq> [] \<and> sh (nd (rr_check_in row)) = Time a
         \<and> sh (nd (rr_check_out row)) = Time b \<and> sh d = Time t"
  then show "overlapsTarget nd sh (sh d) row = (a \<le> t \<and> t \<le> b)"
    by (simp add: overlapsTarget_inclusive)
qed

text \<open>
  On 2024-01-10 in a zone seven hours ahead of UTC: a reservation ending that day together
  with a stay checked in that day shows \<open>occupied\<close>; two reservations show \<open>reserved\<close>.
\<close>

theorem display_checked_in_precedence_witness:
  "displayStatus isoDate wib (Some mixedBookings) (Some afternoon) (roomCard available) = occupied
   \<and> displayStatus isoDate wib (Some heldBookings) (Some afternoon) (roomCard available) = reserved
   \<and> overlapsTarget isoDate wib (wib afternoon) (bookingRow ''b1'' reservation ''2024-01-09'' ''2024-01-10'')
   \<and> overlapsTarget isoDate wib (wib afternoon) (bookingRow ''b2'' checked_in ''2024-01-10'' ''2024-01-12'')"
  using display_checked_in_precedence [of "roomCard available" mixedBookings isoDate wib afternoon
          "bookingRow ''b1'' reservation ''2024-01-09'' ''2024-01-10''"
          "msPerDay * 19731 - 7 * 3600000" "msPerDay * 19732 - 7 * 3600000" "msPerDay * 19732 - 7 * 3600000"]
        display_checked_in_precedence [of "roomCard available" heldBookings isoDate wib afternoon
          "bookingRow ''b2'' checked_in ''2024-01-10'' ''2024-01-12''"
          "msPerDay * 19732 - 7 * 3600000" "msPerDay * 19734 - 7 * 3600000" "msPerDay * 19732 - 7 * 3600000"]
  by (simp add: mixedBookings_def heldBookings_def stay_dates card_defs)

text \<open>
  Claim C5. A room whose stored status is \<open>cleaning\<close> is displayed as \<open>cleaning\<close> for
  every selected date and every set of bookings (loaded or not); and when no booking of
  the room overlaps the selected date, the display status is the stored status.
\<close>

theorem display_cleaning_and_no_overlap:
  "(rm_status room = cleaning \<longrightarrow> displayStatus nd sh reservationsData sel room = cleaning)
   \<and> (\<not> (\<exists>r\<in>set rows. rr_room_id r = Some (rm_id room) \<and> overlapsTarget nd sh (sh d) r)
        \<longrightarrow> displayStatus nd sh (Some rows) (Some d) room = rm_status room)"
  by (simp add: displayStatus_cleaning displayStatus_loaded)

text \<open>
  A cleaning room under an overlapping checked-in stay stays \<open>cleaning\<close>; an occupied
  room whose only booking starts the next day stays \<open>occupied\<close>.
\<close>

theorem display_cleaning_and_no_overlap_witness:
  "displayStatus isoDate wib (Some mixedBookings) (Some afternoon) (roomCard cleaning) = cleaning
   \<and> displayStatus isoDate wib None None (roomCard cleaning) = cleaning
   \<and> displayStatus isoDate wib (Some [bookingRow ''b5'' reservation ''2024-01-11'' ''2024-01-12''])
        (Some afternoon) (roomCard occupied) = occupied"
  using display_cleaning_and_no_overlap [of "roomCard cleaning" isoDate wib "Some mixedBookings" "Some afternoon"]
        display_cleaning_and_no_overlap [of "roomCard cleaning" isoDate wib None None]
        display_cleaning_and_no_overlap [of "roomCard occupied" isoDate wib None None
           "[bookingRow ''b5'' reservation ''2024-01-11'' ''2024-01-12'']" afternoon]
  by (simp add: stay_dates card_defs)

text \<open>
  Claim C10. For a room whose stored status is not \<open>cleaning\<close>: when at least one booking
  of the room overlaps the selected date and every overlapping one is \<open>checked-out\<close>, the
  display status is \<open>reserved\<close>; the entries kept for the room are all its overlapping
  rows, the checked-out ones among them.
\<close>

theorem display_checked_out_reserved:
  assumes "rm_status room \<noteq> cleaning"
    and "\<exists>r\<in>set rows. rr_room_id r = Some (rm_id room) \<and> overlapsTarget nd sh (sh d) r"
    and "\<forall>r\<in>set rows. rr_room_id r = Some (rm_id room) \<and> overlapsTarget nd sh (sh d) r
            \<longrightarrow> rr_booking_status r = checked_out"
  shows "displayStatus nd sh (Some rows) (Some d) room = reserved
     \<and> reservationsByRoom nd sh (Some rows) (Some d) (rm_id room)
         = Some (map summary
             (filter (\<lambda>r. overlapsTarget nd sh (sh d) r \<and> rr_room_id r = Some (rm_id room)) rows))"
proof
  from assms(3) have "\<not> (\<exists>r\<in>set rows. rr_room_id r = Some (rm_id room)
        \<and> overlapsTarget nd sh (sh d) r \<and> rr_booking_status r = checked_in)"
    by auto
  with assms(1,2) show "displayStatus nd sh (Some rows) (Some d) room = reserved"
    by (subst displayStatus_loaded) simp
next
  from assms(2) have "filter (\<lambda>r. overlapsTarget nd sh (sh d) r \<and> rr_room_id r = Some (rm_id room)) rows \<noteq> []"
    by (auto simp: filter_empty_conv)
  then show "reservationsByRoom nd sh (Some rows) (Some d) (rm_id room)
         = Some (map summary
             (filter (\<lambda>r. overlapsTarget nd sh (sh d) r \<and> rr_room_id r = Some (rm_id room)) rows))"
    by (simp add: reservationsByRoom_lookup Let_def)
qed

text \<open>A stay checked out on 2024-01-10 still shows the available room as \<open>reserved\<close> that day.\<close>

theorem display_checked_out_reserved_witness:
  "displayStatus isoDate wib (Some pastBookings) (Some afternoon) (roomCard available) = reserved
   \<and> reservationsByRoom isoDate wib (Some pastBookings) (Some afternoon) ''r101''
       = Some [summary (bookingRow ''b4'' checked_out ''2024-01-09'' ''2024-01-10'')]"
  using display_checked_out_reserved [of "roomCard available" pastBookings isoDate wib afternoon]
  by (simp add: pastBookings_def stay_dates card_defs)

subsection \<open>Booking creation\<close>

lemma update_eq_id_accepted:
  "update_eq_id None upd i tbl = (None, map (\<lambda>(k, row). if k = i then (k, upd row) else (k, row)) tbl)"
  by (simp add: update_eq_id_def)

lemma update_eq_id_rejected:
  "update_eq_id (Some e) upd i tbl = (Some e, tbl)"
  by (simp add: update_eq_id_def)

lemma updated_keys:
  "map fst (map (\<lambda>(k, row). if k = i then (k, upd row) else (k, row)) tbl) = map fst tbl"
  by (induction tbl) auto

lemma updated_rows:
  "(k, row') \<in> set (map (\<lambda>(k, row). if k = i then (k, upd row) else (k, row)) tbl) \<Longrightarrow>
   (if k = i then \<exists>row. (i, row) \<in> set tbl \<and> row' = upd row else (k, row') \<in> set tbl)"
  by (auto split: if_splits)

lemma addGuestMutation_accepted:
  assumes "addGuestMutation payload gR rR tR db = (Inr (), db')"
  shows "\<exists>g. gR = InsertedAs g \<and> rR = None
      \<and> tbl_guests db' = tbl_guests db @ [(g, guestInsert payload)]
      \<and> tbl_rooms db' = map (\<lambda>(k, row). if k = pl_roomId payload then (k, apply_updates (roomUpdates payload) row) else (k, row)) (tbl_rooms db)
      \<and> tbl_user_activities db' = tbl_user_activities db
      \<and> (if pl_bookingStatus payload = checked_in \<and> pl_totalPrice payload > 0
          then \<exists>x. tR = InsertedAs x \<and> tbl_transactions db' = tbl_transactions db @ [(x, transactionInsert payload)]
          else tbl_transactions db' = tbl_transactions db)"
  using assms
  by (cases gR; cases rR; cases tR)
     (auto simp: addGuestMutation_def insert_row_def update_eq_id_def Let_def split: if_splits)

lemma roomUpdates_fields:
  "r_reservation_date (apply_updates (roomUpdates payload) row) = Some (pl_checkIn payload)"
  "r_check_out_date (apply_updates (roomUpdates payload) row) = Some (pl_checkOut payload)"
  "pl_bookingStatus payload = checked_in \<Longrightarrow> r_status (apply_updates (roomUpdates payload) row) = occupied"
  "pl_bookingStatus payload = reservation \<Longrightarrow> r_status (apply_updates (roomUpdates payload) row) = reserved"
  by (simp_all add: apply_updates_def roomUpdates_def Let_def)

text \<open>
  Claim C1. After a booking creation that succeeds, with booking status \<open>s\<close>, check-in
  \<open>ci\<close>, check-out \<open>co\<close> and total price \<open>p\<close> in the payload: the rooms table has
  the same ids as before; every row of the assigned room has \<open>reservation_date = ci\<close>
  and \<open>check_out_date = co\<close>, with status \<open>occupied\<close> if \<open>s\<close> is \<open>checked-in\<close> and
  \<open>reserved\<close> if \<open>s\<close> is \<open>reservation\<close>, and every other room row is as it was; an
  income transaction of amount \<open>p\<close> dated \<open>ci\<close> has been appended when \<open>s\<close> is
  \<open>checked-in\<close> and \<open>p > 0\<close>, and the transactions are unchanged otherwise.
\<close>

theorem addGuest_success_effects:
  assumes "addGuestMutation payload gR rR tR db = (Inr (), db')"
  shows "map fst (tbl_rooms db') = map fst (tbl_rooms db)
     \<and> (\<forall>(k, row) \<in> set (tbl_rooms db').
           if k = pl_roomId payload
           then r_reservation_date row = Some (pl_checkIn payload)
              \<and> r_check_out_date row = Some (pl_checkOut payload)
              \<and> (pl_bookingStatus payload = checked_in \<longrightarrow> r_status row = occupied)
              \<and> (pl_bookingStatus payload = reservation \<longrightarrow> r_status row = reserved)
           else (k, row) \<in> set (tbl_rooms db))
     \<and> (pl_bookingStatus payload = checked_in \<and> 0 < pl_totalPrice payload \<longrightarrow>
          (\<exists>x tx. tbl_transactions db' = tbl_transactions db @ [(x, tx)] \<and> t_type tx = income
                \<and> t_amount tx = pl_totalPrice payload \<and> t_date tx = pl_checkIn payload))
     \<and> (\<not> (pl_bookingStatus payload = checked_in \<and> 0 < pl_totalPrice payload) \<longrightarrow>
          tbl_transactions db' = tbl_transactions db)"
proof -
  from addGuestMutation_accepted [OF assms] have
    rooms: "tbl_rooms db' = map (\<lambda>(k, row). if k = pl_roomId payload
               then (k, apply_updates (roomUpdates payload) row) else (k, row)) (tbl_rooms db)"
    and tx: "if pl_bookingStatus payload = checked_in \<and> pl_totalPrice payload > 0
          then \<exists>x. tR = InsertedAs x
                 \<and> tbl_transactions db' = tbl_transactions db @ [(x, transactionInsert payload)]
          else tbl_transactions db' = tbl_transactions db"
    by blast+
  have keys: "map fst (tbl_rooms db') = map fst (tbl_rooms db)"
    by (simp only: rooms updated_keys)
  have rows: "\<forall>(k, row) \<in> set (tbl_rooms db').
           if k = pl_roomId payload
           then r_reservation_date row = Some (pl_checkIn payload)
              \<and> r_check_out_date row = Some (pl_checkOut payload)
              \<and> (pl_bookingStatus payload = checked_in \<longrightarrow> r_status row = occupied)
              \<and> (pl_bookingStatus payload = reservation \<longrightarrow> r_status row = reserved)
           else (k, row) \<in> set (tbl_rooms db)"
    unfolding rooms by (auto simp: roomUpdates_fields split: if_splits)
  have tx1: "pl_bookingStatus payload = checked_in \<and> 0 < pl_totalPrice payload \<longrightarrow>
          (\<exists>x tx. tbl_transactions db' = tbl_transactions db @ [(x, tx)] \<and> t_type tx = income
                \<and> t_amount tx = pl_totalPrice payload \<and> t_date tx = pl_checkIn payload)"
  proof
    assume h: "pl_bookingStatus payload = checked_in \<and> 0 < pl_totalPrice payload"
    with tx obtain x where
      "tbl_transactions db' = tbl_transactions db @ [(x, transactionInsert payload)]"
      by auto
    then show "\<exists>x tx. tbl_transactions db' = tbl_transactions db @ [(x, tx)] \<and> t_type tx = income
                \<and> t_amount tx = pl_totalPrice payload \<and> t_date tx = pl_checkIn payload"
      by (intro exI [of _ x] exI [of _ "transactionInsert payload"])
         (simp add: transactionInsert_def)
  qed
  have tx2: "\<not> (pl_bookingStatus payload = checked_in \<and> 0 < pl_totalPrice payload) \<longrightarrow>
          tbl_transactions db' = tbl_transactions db"
    using tx by auto
  from keys rows tx1 tx2 show ?thesis by blast
qed

lemmas scenario_defs = payloadFor_def makePayload_def formFor_def stayState_def room101_def
  db0_def row101_def row102_def

lemma dbStay_eq:
  "dbStay = \<lparr> tbl_guests = [(''g1'', guestInsert (payloadFor checked_in))],
             tbl_rooms = [(''r101'', row101\<lparr> r_status := occupied, r_reservation_date := Some ''2024-01-10'',
                                           r_check_out_date := Some ''2024-01-12'' \<rparr>),
                          (''r102'', row102)],
             tbl_transactions = [(''x1'', transactionInsert (payloadFor checked_in))],
             tbl_user_activities = [] \<rparr>"
  by (simp add: dbStay_def addGuestMutation_def insert_row_def update_eq_id_def Let_def
        apply_updates_def roomUpdates_def scenario_defs)

lemma run_reservation:
  "addGuestMutation (payloadFor reservation) (InsertedAs ''g2'') None (InsertedAs ''x2'') db0
     = (Inr (), db0\<lparr> tbl_guests := [(''g2'', guestInsert (payloadFor reservation))],
             tbl_rooms := [(''r101'', row101\<lparr> r_status := reserved, r_reservation_date := Some ''2024-01-10'',
                                           r_check_out_date := Some ''2024-01-12'' \<rparr>),
                          (''r102'', row102)] \<rparr>)"
  by (simp add: addGuestMutation_def insert_row_def update_eq_id_def Let_def
        apply_updates_def roomUpdates_def scenario_defs)

lemma run_checked_in:
  "addGuestMutation (payloadFor checked_in) (InsertedAs ''g1'') None (InsertedAs ''x1'') db0
     = (Inr (), dbStay)"
  by (simp add: dbStay_eq)
     (simp add: addGuestMutation_def insert_row_def update_eq_id_def Let_def
        apply_updates_def roomUpdates_def scenario_defs)


text \<open>
  The checked-in booking of the scenario leaves room 101 occupied with both dates and one
  income transaction of 1000000 dated 2024-01-10; the same booking as a reservation leaves
  the room reserved and no transaction.
\<close>

theorem addGuest_success_effects_witness:
  "addGuestMutation (payloadFor checked_in) (InsertedAs ''g1'') None (InsertedAs ''x1'') db0
     = (Inr (), dbStay)
   \<and> map (r_status \<circ> snd) (tbl_rooms dbStay) = [occupied, available]
   \<and> map (r_reservation_date \<circ> snd) (tbl_rooms dbStay) = [Some ''2024-01-10'', None]
   \<and> map (r_check_out_date \<circ> snd) (tbl_rooms dbStay) = [Some ''2024-01-12'', None]
   \<and> map (\<lambda>(x, tx). (t_type tx, t_amount tx, t_date tx)) (tbl_transactions dbStay)
        = [(income, 1000000, ''2024-01-10'')]
   \<and> fst (addGuestMutation (payloadFor reservation) (InsertedAs ''g2'') None (InsertedAs ''x2'') db0)
        = Inr ()
   \<and> tbl_transactions
        (snd (addGuestMutation (payloadFor reservation) (InsertedAs ''g2'') None (InsertedAs ''x2'') db0))
        = []
   \<and> map (r_status \<circ> snd) (tbl_rooms
        (snd (addGuestMutation (payloadFor reservation) (InsertedAs ''g2'') None (InsertedAs ''x2'') db0)))
        = [reserved, available]"
proof -
  note a = addGuest_success_effects [OF run_checked_in]
  note b = addGuest_success_effects [OF run_reservation]
  have 1: "map (r_status \<circ> snd) (tbl_rooms dbStay) = [occupied, available]"
    by (simp add: dbStay_eq row101_def row102_def)
  have 2: "map (r_reservation_date \<circ> snd) (tbl_rooms dbStay) = [Some ''2024-01-10'', None]"
    by (simp add: dbStay_eq row101_def row102_def)
  have 3: "map (r_check_out_date \<circ> snd) (tbl_rooms dbStay) = [Some ''2024-01-12'', None]"
    by (simp add: dbStay_eq row101_def row102_def)
  have 4: "map (\<lambda>(x, tx). (t_type tx, t_amount tx, t_date tx)) (tbl_transactions dbStay)
        = [(income, 1000000, ''2024-01-10'')]"
    by (simp add: dbStay_eq transactionInsert_def payloadFor_def makePayload_def stayState_def)
  have 5: "tbl_transactions
        (snd (addGuestMutation (payloadFor reservation) (InsertedAs ''g2'') None (InsertedAs ''x2'') db0))
        = []"
    unfolding run_reservation by (simp add: db0_def)
  have 6: "map (r_status \<circ> snd) (tbl_rooms
        (snd (addGuestMutation (payloadFor reservation) (InsertedAs ''g2'') None (InsertedAs ''x2'') db0)))
        = [reserved, available]"
    unfolding run_reservation by (simp add: db0_def row101_def row102_def)
  from a b 1 2 3 4 5 6 show ?thesis
    by (simp only: run_checked_in run_reservation fst_conv simp_thms)
qed

subsection \<open>Checkout\<close>

lemma find_id:
  "find (\<lambda>item. gi_id item = guestId) guests = Some guest \<Longrightarrow> gi_id guest = guestId"
  by (auto simp: find_Some_iff)

text \<open>
  Claim C6. When the booking found for the id is not \<open>checked-in\<close> (it is a
  \<open>reservation\<close> or \<open>checked-out\<close>), checkout answers with the warning toast, registers
  no timer and returns the database as it was, whatever the backend would have replied:
  no request is made.
\<close>

theorem checkout_refused_unless_checked_in:
  assumes "find (\<lambda>item. gi_id item = guestId) guests = Some guest"
    and "gi_bookingStatus guest \<noteq> checked_in"
  shows "handleCheckout guests guestId gR rR db
           = (toast_warning ''Tamu ini belum berstatus check-in.'', db, [])"
  using assms by (simp add: handleCheckout_def)

text \<open>The same for a reservation and for a stay already checked out, on the scenario database.\<close>

theorem checkout_refused_unless_checked_in_witness:
  "handleCheckout [guestItem reservation] ''g1'' None None dbStay
     = (toast_warning ''Tamu ini belum berstatus check-in.'', dbStay, [])
   \<and> handleCheckout [guestItem checked_out] ''g1'' None None dbStay
     = (toast_warning ''Tamu ini belum berstatus check-in.'', dbStay, [])"
  using checkout_refused_unless_checked_in [of "''g1''" "[guestItem reservation]" "guestItem reservation" None None dbStay]
        checkout_refused_unless_checked_in [of "''g1''" "[guestItem checked_out]" "guestItem checked_out" None None dbStay]
  by (simp add: guestItem_def)

lemma checkoutMutation_accepted:
  "roomId \<noteq> [] \<Longrightarrow>
   checkoutMutation guestId (Some roomId) None None db =
     (Inr (),
      db\<lparr> tbl_guests := map (\<lambda>(k, g). if k = guestId then (k, g\<lparr> g_booking_status := checked_out \<rparr>)
                                      else (k, g)) (tbl_guests db),
          tbl_rooms := map (\<lambda>(k, row). if k = roomId
                then (k, apply_updates \<lparr> u_status = Some cleaning, u_reservation_date = None,
                                        u_check_out_date = None \<rparr> row)
                else (k, row)) (tbl_rooms db) \<rparr>,
      [(3000, ResetRoom roomId)])"
  by (simp add: checkoutMutation_def update_eq_id_def falsy_def Let_def)

lemma checkoutMutation_room_rejected:
  "roomId \<noteq> [] \<Longrightarrow>
   checkoutMutation guestId (Some roomId) None (Some e) db =
     (Inl ThrownNull,
      db\<lparr> tbl_guests := map (\<lambda>(k, g). if k = guestId then (k, g\<lparr> g_booking_status := checked_out \<rparr>)
                                      else (k, g)) (tbl_guests db) \<rparr>,
      [])"
  by (simp add: checkoutMutation_def update_eq_id_def falsy_def Let_def throw_value_def)

lemma runCallback_accepted:
  "runCallback (ResetRoom roomId) None db =
     (db\<lparr> tbl_rooms := map (\<lambda>(k, row). if k = roomId
                then (k, apply_updates \<lparr> u_status = Some available, u_reservation_date = Some None,
                                        u_check_out_date = Some None \<rparr> row)
                else (k, row)) (tbl_rooms db) \<rparr>, [])"
  by (simp add: update_eq_id_def)

lemma runCallback_rejected: "runCallback (ResetRoom roomId) (Some e) db = (db, [])"
  by (simp add: update_eq_id_def)

text \<open>
  Claim C7. For a checked-in booking with a room, when both requests of the checkout
  are accepted: the success toast is shown, the booking rows of that id are
  \<open>checked-out\<close>, the rows of the room are \<open>cleaning\<close> (the rooms table keeps its
  ids), and one timer of 3000 milliseconds holds the room reset. Running the reset with
  an accepted request makes the room \<open>available\<close> with both dates null; with a rejected
  request the database stays as it is, the room still \<open>cleaning\<close>. Either way the
  callback registers no further timer.
\<close>

theorem checkout_success_cycle:
  assumes "find (\<lambda>item. gi_id item = guestId) guests = Some guest"
    and "gi_bookingStatus guest = checked_in"
    and "gi_roomId guest = Some roomId" and "roomId \<noteq> []"
    and "handleCheckout guests guestId None None db = (t, db', timers)"
  shows "t = toast_success (''Check-out berhasil. Kamar '' @ gi_roomNumber guest @ '' sedang dibersihkan.'')
     \<and> tbl_guests db' = map (\<lambda>(k, g). if k = guestId then (k, g\<lparr> g_booking_status := checked_out \<rparr>)
                                      else (k, g)) (tbl_guests db)
     \<and> map fst (tbl_rooms db') = map fst (tbl_rooms db)
     \<and> (\<forall>(k, row) \<in> set (tbl_rooms db'). k = roomId \<longrightarrow> r_status row = cleaning)
     \<and> timers = [(3000, ResetRoom roomId)]
     \<and> map fst (tbl_rooms (fst (runCallback (ResetRoom roomId) None db'))) = map fst (tbl_rooms db)
     \<and> (\<forall>(k, row) \<in> set (tbl_rooms (fst (runCallback (ResetRoom roomId) None db'))).
           k = roomId \<longrightarrow> r_status row = available \<and> r_reservation_date row = None
                           \<and> r_check_out_date row = None)
     \<and> snd (runCallback (ResetRoom roomId) None db') = []
     \<and> runCallback (ResetRoom roomId) (Some e) db' = (db', [])"
proof -
  have id: "gi_id guest = guestId" using assms(1) by (rule find_id)
  from assms have run: "(t, db', timers) =
     (toast_success (''Check-out berhasil. Kamar '' @ gi_roomNumber guest @ '' sedang dibersihkan.''),
      db\<lparr> tbl_guests := map (\<lambda>(k, g). if k = guestId then (k, g\<lparr> g_booking_status := checked_out \<rparr>)
                                      else (k, g)) (tbl_guests db),
          tbl_rooms := map (\<lambda>(k, row). if k = roomId
                then (k, apply_updates \<lparr> u_status = Some cleaning, u_reservation_date = None,
                                        u_check_out_date = None \<rparr> row)
                else (k, row)) (tbl_rooms db) \<rparr>,
      [(3000, ResetRoom roomId)])"
    by (simp add: handleCheckout_def id checkoutMutation_accepted)
  then have t: "t = toast_success (''Check-out berhasil. Kamar '' @ gi_roomNumber guest @ '' sedang dibersihkan.'')"
    and guests': "tbl_guests db' = map (\<lambda>(k, g). if k = guestId then (k, g\<lparr> g_booking_status := checked_out \<rparr>)
                                      else (k, g)) (tbl_guests db)"
    and rooms': "tbl_rooms db' = map (\<lambda>(k, row). if k = roomId
                then (k, apply_updates \<lparr> u_status = Some cleaning, u_reservation_date = None,
                                        u_check_out_date = None \<rparr> row)
                else (k, row)) (tbl_rooms db)"
    and timers: "timers = [(3000, ResetRoom roomId)]"
    by simp_all
  have keys: "map fst (tbl_rooms db') = map fst (tbl_rooms db)"
    by (simp only: rooms' updated_keys)
  have cleaning: "\<forall>(k, row) \<in> set (tbl_rooms db'). k = roomId \<longrightarrow> r_status row = cleaning"
    unfolding rooms' by (auto simp: apply_updates_def split: if_splits)
  have keys2: "map fst (tbl_rooms (fst (runCallback (ResetRoom roomId) None db'))) = map fst (tbl_rooms db)"
    by (auto simp: runCallback_accepted keys [symmetric] simp del: runCallback.simps)
  have reset: "\<forall>(k, row) \<in> set (tbl_rooms (fst (runCallback (ResetRoom roomId) None db'))).
           k = roomId \<longrightarrow> r_status row = available \<and> r_reservation_date row = None
                           \<and> r_check_out_date row = None"
    by (auto simp: runCallback_accepted apply_updates_def simp del: runCallback.simps split: if_splits)
  have none: "snd (runCallback (ResetRoom roomId) None db') = []"
    by (simp add: runCallback_accepted del: runCallback.simps)
  have stays: "runCallback (ResetRoom roomId) (Some e) db' = (db', [])"
    by (rule runCallback_rejected)
  from t guests' keys cleaning timers keys2 reset none stays show ?thesis by blast
qed

lemma guestItem_found: "find (\<lambda>item. gi_id item = ''g1'') [guestItem s] = Some (guestItem s)"
  by (simp add: guestItem_def)

lemma checkout_dbStay:
  "handleCheckout [guestItem checked_in] ''g1'' None None dbStay
    = (toast_success ''Check-out berhasil. Kamar 101 sedang dibersihkan.'',
       dbStay\<lparr> tbl_guests := [(''g1'', (guestInsert (payloadFor checked_in))\<lparr> g_booking_status := checked_out \<rparr>)],
               tbl_rooms := [(''r101'', row101\<lparr> r_status := cleaning, r_reservation_date := Some ''2024-01-10'',
                                           r_check_out_date := Some ''2024-01-12'' \<rparr>),
                          (''r102'', row102)] \<rparr>,
       [(3000, ResetRoom ''r101'')])"
  by (simp add: handleCheckout_def guestItem_def checkoutMutation_accepted dbStay_eq apply_updates_def)

lemma dbCleaning_eq:
  "dbCleaning = dbStay\<lparr> tbl_guests := [(''g1'', (guestInsert (payloadFor checked_in))\<lparr> g_booking_status := checked_out \<rparr>)],
               tbl_rooms := [(''r101'', row101\<lparr> r_status := cleaning, r_reservation_date := Some ''2024-01-10'',
                                           r_check_out_date := Some ''2024-01-12'' \<rparr>),
                          (''r102'', row102)] \<rparr>"
  by (simp add: dbCleaning_def checkout_dbStay)

lemma checkout_dbCleaning:
  "handleCheckout [guestItem checked_in] ''g1'' None None dbStay
    = (toast_success ''Check-out berhasil. Kamar 101 sedang dibersihkan.'', dbCleaning,
       [(3000, ResetRoom ''r101'')])"
  by (simp only: dbCleaning_eq checkout_dbStay)

text \<open>
  The checkout of the scenario booking: the booking is checked out and room 101 is
  cleaning; the accepted reset gives the room back as it was before the booking, the
  rejected one leaves it cleaning.
\<close>

theorem checkout_success_cycle_witness:
  "handleCheckout [guestItem checked_in] ''g1'' None None dbStay
     = (toast_success ''Check-out berhasil. Kamar 101 sedang dibersihkan.'', dbCleaning,
        [(3000, ResetRoom ''r101'')])
   \<and> map (g_booking_status \<circ> snd) (tbl_guests dbCleaning) = [checked_out]
   \<and> map (r_status \<circ> snd) (tbl_rooms dbCleaning) = [cleaning, available]
   \<and> tbl_rooms (fst (runCallback (ResetRoom ''r101'') None dbCleaning))
       = [(''r101'', row101), (''r102'', row102)]
   \<and> runCallback (ResetRoom ''r101'') (Some denied) dbCleaning = (dbCleaning, [])"
proof -
  have g: "gi_bookingStatus (guestItem checked_in) = checked_in"
    and r: "gi_roomId (guestItem checked_in) = Some ''r101''" and n: "''r101'' \<noteq> []"
    by (simp_all add: guestItem_def)
  note a = checkout_success_cycle [where e = denied, OF guestItem_found g r n checkout_dbCleaning]
  have 1: "map (g_booking_status \<circ> snd) (tbl_guests dbCleaning) = [checked_out]"
    by (simp add: dbCleaning_eq)
  have 2: "map (r_status \<circ> snd) (tbl_rooms dbCleaning) = [cleaning, available]"
    by (simp add: dbCleaning_eq row102_def)
  have 3: "tbl_rooms (fst (runCallback (ResetRoom ''r101'') None dbCleaning))
       = [(''r101'', row101), (''r102'', row102)]"
    by (simp add: runCallback_accepted dbCleaning_eq apply_updates_def row101_def
          del: runCallback.simps)
  from a 1 2 3 show ?thesis
    by (simp only: checkout_dbCleaning simp_thms)
qed

subsection \<open>Partial failure\<close>

text \<open>
  Claim C8. Booking creation is not atomic. When the booking insert is accepted and the
  room update is rejected with \<open>e\<close>, the mutation throws \<open>e\<close> and the database keeps
  the new booking row. When the room update is accepted too and the transaction insert
  (made for a checked-in booking with a positive total) is rejected with \<open>e\<close>, the
  mutation throws \<open>e\<close> and the database keeps the booking row and the room update.
  Nothing is undone.
\<close>

theorem addGuest_not_atomic:
  "addGuestMutation payload (InsertedAs g) (Some e) tR db
     = (Inl (ThrownPostgrest e), db\<lparr> tbl_guests := tbl_guests db @ [(g, guestInsert payload)] \<rparr>)
   \<and> (pl_bookingStatus payload = checked_in \<and> 0 < pl_totalPrice payload \<longrightarrow>
        addGuestMutation payload (InsertedAs g) None (InsertRejected e) db
          = (Inl (ThrownPostgrest e),
             db\<lparr> tbl_guests := tbl_guests db @ [(g, guestInsert payload)],
                 tbl_rooms := map (\<lambda>(k, row). if k = pl_roomId payload
                                 then (k, apply_updates (roomUpdates payload) row) else (k, row))
                               (tbl_rooms db) \<rparr>))"
  by (simp add: addGuestMutation_def insert_row_def update_eq_id_def Let_def)

text \<open>
  On the scenario: with the room update rejected the booking row stays while the rooms are
  untouched; with the transaction insert rejected the database is the one of the successful
  booking without its transaction.
\<close>

theorem addGuest_not_atomic_witness:
  "addGuestMutation (payloadFor checked_in) (InsertedAs ''g1'') (Some denied) (InsertedAs ''x1'') db0
     = (Inl (ThrownPostgrest denied), db0\<lparr> tbl_guests := [(''g1'', guestInsert (payloadFor checked_in))] \<rparr>)
   \<and> addGuestMutation (payloadFor checked_in) (InsertedAs ''g1'') None (InsertRejected denied) db0
     = (Inl (ThrownPostgrest denied), dbStay\<lparr> tbl_transactions := [] \<rparr>)"
proof -
  have h: "pl_bookingStatus (payloadFor checked_in) = checked_in \<and> 0 < pl_totalPrice (payloadFor checked_in)"
    by (simp add: scenario_defs)
  have rooms: "map (\<lambda>(k, row). if k = pl_roomId (payloadFor checked_in)
                   then (k, apply_updates (roomUpdates (payloadFor checked_in)) row) else (k, row))
                 (tbl_rooms db0) = tbl_rooms dbStay"
    by (simp add: dbStay_eq)
       (simp add: db0_def apply_updates_def roomUpdates_def payloadFor_def makePayload_def
          formFor_def stayState_def room101_def)
  have g0: "tbl_guests db0 = []"
    by (simp add: db0_def)
  have db: "db0\<lparr> tbl_guests := [(''g1'', guestInsert (payloadFor checked_in))],
               tbl_rooms := tbl_rooms dbStay \<rparr> = dbStay\<lparr> tbl_transactions := [] \<rparr>"
    by (simp add: dbStay_eq db0_def)
  from addGuest_not_atomic [of "payloadFor checked_in" "''g1''" denied "InsertedAs ''x1''" db0] h
  show ?thesis by (simp only: rooms g0 append_Nil db simp_thms)
qed

text \<open>
  Claim C9 says that a room update rejected with \<open>e\<close> after an accepted booking update
  makes the checkout fail with exactly \<open>e\<close>. In the scenario the room update is
  rejected with \<open>denied\<close>: the mutation fails, but the value it throws is null (the
  variable of the first request), not \<open>denied\<close>; the handler therefore shows its fallback
  text, where \<open>denied\<close> thrown as it is would have shown the backend's message. The
  booking is left checked out, the room as it was, and no timer is registered.
\<close>

theorem checkout_room_error_thrown_null:
  "checkoutMutation ''g1'' (Some ''r101'') None (Some denied) dbStay
     = (Inl ThrownNull,
        dbStay\<lparr> tbl_guests := [(''g1'', (guestInsert (payloadFor checked_in))
                                         \<lparr> g_booking_status := checked_out \<rparr>)] \<rparr>,
        [])
   \<and> Inl ThrownNull \<noteq> (Inl (ThrownPostgrest denied) :: thrown + unit)
   \<and> handleCheckout [guestItem checked_in] ''g1'' None (Some denied) dbStay
     = (toast_error ''Gagal melakukan check-out.'',
        dbStay\<lparr> tbl_guests := [(''g1'', (guestInsert (payloadFor checked_in))
                                         \<lparr> g_booking_status := checked_out \<rparr>)] \<rparr>,
        [])
   \<and> errorMessage (ThrownPostgrest denied) ''Gagal melakukan check-out.''
        = ''permission denied for table rooms''"
  by (simp add: handleCheckout_def guestItem_def checkoutMutation_room_rejected dbStay_eq
        errorMessage_def denied_def)

end
